theory Spec2Isabelle
  imports Complex_Main "HOL-Library.Log_Nat"
begin

section \<open>Data model of \<open>gltiles.py\<close>\<close>

text \<open>
  Python integers are modelled as \<^typ>\<open>int\<close>.  Python floats are modelled as
  \<^typ>\<open>real\<close>: a float is a finite number (no NaN, no infinities), and addition,
  subtraction, multiplication and division of floats are exact in the model.  The two
  operations that turn an integer into a float, \<open>float(n)\<close> and the true division \<open>n / m\<close>
  of Python 3, are modelled with their rounding to the nearest double and with the
  \<open>OverflowError\<close> of \<open>float(n)\<close>.  Where a theorem below evaluates the code at concrete
  numbers, these are small integers, on which every double operation of the source is
  exact.  An exception is a value of \<open>error\<close>; a function that can raise returns
  \<open>error + 'a\<close> with \<open>Inl\<close> for the exception.
\<close>

datatype error = AssertionError | ZeroDivisionError | KeyError | OverflowError

text \<open>\<open>box = namedtuple('box', ('b', 'l', 't', 'r'))\<close>: bottom, left, top, right.  The
  same tuple type carries world coordinates (floats), pixel coordinates (floats) and tile
  indices (integers), hence the type parameter.  The fields carry the prefix \<open>box_\<close>
  so that the one-letter names stay free for variables.\<close>

record 'a box =
  box_b :: 'a
  box_l :: 'a
  box_t :: 'a
  box_r :: 'a

text \<open>\<open>rez = namedtuple('rez', ('dy', 'dx'))\<close>: world units per pixel.\<close>

record rez =
  dy :: real
  dx :: real

text \<open>The class constants of \<open>MercatorTileCalc\<close>.\<close>

definition OVERSAMPLED :: int where
  "OVERSAMPLED = 1"

definition UNDERSAMPLED :: int where
  "UNDERSAMPLED = - 1"

definition WELLSAMPLED :: int where
  "WELLSAMPLED = 0"

text \<open>The attributes of a \<open>MercatorTileCalc\<close> object; the last two are derived in
  \<open>__init__\<close>.\<close>

record MercatorTileCalc =
  name :: string
  pixel_shape :: "int \<times> int"
  zero_point :: "real \<times> real"
  pixel_rez :: rez
  tile_shape :: "int \<times> int"
  extents_box :: "real box"
  tiles_avail :: "int \<times> int"

section \<open>Integers as floats\<close>

text \<open>\<open>n / u\<close> for a positive \<open>u\<close>, rounded to the nearest integer, a tie to the even
  one.\<close>

definition round_half_even :: "int \<Rightarrow> int \<Rightarrow> int" where
  "round_half_even n u =
    (let q = n div u; r = n mod u
     in if 2 * r < u then q
        else if u < 2 * r then q + 1
        else if even q then q else q + 1)"

text \<open>The double nearest to an integer, ties to even, were the exponent range unbounded:
  a double has 53 significant bits, so an integer of \<open>bitlen\<close> \<open>k > 53\<close> is rounded to a
  multiple of \<open>2 ^ (k - 53)\<close>, and an integer of at most 53 bits is a double itself.  The
  value is again an integer.\<close>

definition nearest_double :: "int \<Rightarrow> int" where
  "nearest_double n = (let u = 2 ^ nat (bitlen \<bar>n\<bar> - 53) in round_half_even n u * u)"

text \<open>The first power of two beyond the largest double.\<close>

definition DBL_OVERFLOW :: int where
  "DBL_OVERFLOW = 2 ^ 1024"

text \<open>The integer rounds to a magnitude no double has: \<open>float(n)\<close> raises
  \<open>OverflowError\<close>.\<close>

definition float_overflows :: "int \<Rightarrow> bool" where
  "float_overflows n \<longleftrightarrow> DBL_OVERFLOW \<le> \<bar>nearest_double n\<bar>"

text \<open>\<open>float(n)\<close> for a Python integer \<open>n\<close>.\<close>

definition py_float :: "int \<Rightarrow> error + real" where
  "py_float n =
    (if float_overflows n then Inl OverflowError else Inr (real_of_int (nearest_double n)))"

section \<open>\<open>MercatorTileCalc.__init__\<close>\<close>

text \<open>
  The statements of \<open>__init__\<close> in source order.  The two assertions on \<open>pixel_rez\<close> come
  first; then \<open>float(h)\<close> and \<open>float(w)\<close>, each of which raises \<open>OverflowError\<close> for an integer
  too large for a double (the zero point holds floats already); then the extents; then
  \<open>tiles_avail = (h/tile_shape[0], w/tile_shape[1])\<close>, which raises \<open>ZeroDivisionError\<close> for
  a zero tile dimension before the divisibility assertions are reached; then the two
  assertions \<open>h % tile_shape[0] == 0\<close> and \<open>w % tile_shape[1] == 0\<close>.  Python's \<open>%\<close> on
  integers takes the sign of the divisor, as \<open>mod\<close> on \<^typ>\<open>int\<close> does.

  The model follows Python 3, where \<open>/\<close> on integers is true division: the result is the
  double nearest to the exact quotient.  The value of \<open>tiles_avail\<close> is kept only when both
  assertions pass; the exact quotient is then the integer \<open>h div tile_shape[0]\<close>, and the
  float stored is the double nearest to it, an integer again, so the field holds integers.
  The division cannot overflow once \<open>float(h)\<close> has not, the quotient being no larger in
  magnitude than \<open>h\<close>.  (Under Python 2 the quotient is the exact integer.)
\<close>

definition MercatorTileCalc_init ::
  "string \<Rightarrow> int \<times> int \<Rightarrow> real \<times> real \<Rightarrow> rez \<Rightarrow> int \<times> int \<Rightarrow> error + MercatorTileCalc" where
  "MercatorTileCalc_init nm pshape zpoint prez tshape =
    (if dy prez > 0 then
       if dx prez > 0 then
         (let h = fst pshape; w = snd pshape;
              zy = fst zpoint; zx = snd zpoint
          in case py_float h of
               Inl e \<Rightarrow> Inl e
             | Inr float_h \<Rightarrow>
                 (case py_float w of
                    Inl e \<Rightarrow> Inl e
                  | Inr float_w \<Rightarrow>
                      (let pxbelow = - zy;
                           pxabove = float_h - zy;
                           pxright = float_w - zx;
                           pxleft = - zx;
                           E = \<lparr>box_b = pxbelow * dy prez, box_l = pxleft * dx prez,
                                box_t = pxabove * dy prez, box_r = pxright * dx prez\<rparr>
                       in if fst tshape = 0 then Inl ZeroDivisionError
                          else if snd tshape = 0 then Inl ZeroDivisionError
                          else
                            (let avail = (nearest_double (h div fst tshape),
                                          nearest_double (w div snd tshape))
                             in if h mod fst tshape = 0 then
                                  if w mod snd tshape = 0 then
                                    Inr \<lparr>name = nm, pixel_shape = pshape, zero_point = zpoint,
                                         pixel_rez = prez, tile_shape = tshape,
                                         extents_box = E, tiles_avail = avail\<rparr>
                                  else Inl AssertionError
                                else Inl AssertionError))))
       else Inl AssertionError
     else Inl AssertionError)"

section \<open>\<open>MercatorTileCalc.visible_tiles\<close>\<close>

text \<open>The pixel view box \<open>pv\<close> of \<open>visible_tiles\<close>: the visible world box in pixel
  coordinates relative to the bottom-left corner of the extents.\<close>

definition pixel_view :: "MercatorTileCalc \<Rightarrow> real box \<Rightarrow> real box" where
  "pixel_view self V =
    (let E = extents_box self; Z = pixel_rez self
     in \<lparr>box_b = (box_b V - box_b E) / dy Z,
         box_l = (box_l V - box_l E) / dx Z,
         box_t = (box_t V - box_b E) / dy Z,
         box_r = (box_r V - box_l E) / dx Z\<rparr>)"

text \<open>
  The body of \<open>visible_tiles\<close>, statement by statement; a rebound Python variable is a
  rebound \<open>let\<close> variable.  Float division by a zero \<open>pixel_rez\<close> component or a zero tile
  dimension raises \<open>ZeroDivisionError\<close>.  \<open>int(np.ceil(x))\<close> is \<open>\<lceil>x\<rceil>\<close> and
  \<open>int(np.floor(x))\<close> is \<open>\<lfloor>x\<rfloor>\<close>.  The margin box \<open>X\<close> holds integers, so \<open>int(X.b)\<close> is
  \<open>X.b\<close>.  The result is the pair \<open>(overunder, tileset)\<close>.
\<close>

definition visible_tiles ::
  "MercatorTileCalc \<Rightarrow> real box \<Rightarrow> int box \<Rightarrow> error + (int \<times> int box)" where
  "visible_tiles self V X =
    (if dy (pixel_rez self) = 0 then Inl ZeroDivisionError
     else if dx (pixel_rez self) = 0 then Inl ZeroDivisionError
     else
       (let pv = pixel_view self V;
            th = fst (tile_shape self); tw = snd (tile_shape self)
        in if th = 0 then Inl ZeroDivisionError
           else if tw = 0 then Inl ZeroDivisionError
           else
             (let nth = \<lceil>(box_t pv - box_b pv) / real_of_int th\<rceil>;
                  ntw = \<lceil>(box_r pv - box_l pv) / real_of_int tw\<rceil>;
                  tiy0 = \<lfloor>box_b pv / real_of_int th\<rfloor>;
                  tix0 = \<lfloor>box_l pv / real_of_int tw\<rfloor>;
                  (tiy0, nth) = (if box_b X > 0 then (tiy0 - box_b X, nth + box_b X) else (tiy0, nth));
                  (tix0, ntw) = (if box_l X > 0 then (tix0 - box_l X, ntw + box_l X) else (tix0, ntw));
                  nth = (if box_t X > 0 then nth + box_t X else nth);
                  ntw = (if box_r X > 0 then ntw + box_r X else ntw);
                  (ntw, tix0) = (if tix0 < 0 then (ntw + tix0, 0) else (ntw, tix0));
                  (nth, tiy0) = (if tiy0 < 0 then (nth + tiy0, 0) else (nth, tiy0));
                  ath = fst (tiles_avail self); atw = snd (tiles_avail self);
                  xth = ath - (tiy0 + nth);
                  nth = (if xth < 0 then nth + xth else nth);
                  xtw = atw - (tix0 + ntw);
                  ntw = (if xtw < 0 then ntw + xtw else ntw);
                  overunder = WELLSAMPLED;
                  tileset = \<lparr>box_b = tiy0, box_l = tix0, box_t = tiy0 + nth, box_r = tix0 + ntw\<rparr>
              in Inr (overunder, tileset))))"

text \<open>The default margin \<open>box(0,0,0,0)\<close>.\<close>

definition no_extra_tiles :: "int box" where
  "no_extra_tiles = \<lparr>box_b = 0, box_l = 0, box_t = 0, box_r = 0\<rparr>"

section \<open>\<open>MercatorTileCalc.tile_pixels\<close>\<close>

text \<open>\<open>tile_pixels\<close> returns the view \<open>data[r0:r1, c0:c1]\<close>; the model returns the two
  slices \<open>((r0, r1), (c0, c1))\<close> that select it, the rows first.\<close>

definition tile_pixels :: "MercatorTileCalc \<Rightarrow> int \<Rightarrow> int \<Rightarrow> (int \<times> int) \<times> (int \<times> int)" where
  "tile_pixels self tiy tix =
    ((tiy * fst (tile_shape self), (tiy + 1) * fst (tile_shape self)),
     (tix * snd (tile_shape self), (tix + 1) * snd (tile_shape self)))"

section \<open>Definitions used to state the properties\<close>

text \<open>A concrete calculator: a 512 x 1024 raster of 256 x 512 tiles, world origin at pixel
  (0, 0), one world unit per pixel.  It is the value \<open>MercatorTileCalc('example', (512, 1024),
  (0, 0), rez(1, 1), (256, 512))\<close> constructs (lemma \<open>example_calc_init\<close>).\<close>

definition example_calc :: MercatorTileCalc where
  "example_calc = \<lparr>name = ''example'', pixel_shape = (512, 1024), zero_point = (0, 0),
     pixel_rez = \<lparr>dy = 1, dx = 1\<rparr>, tile_shape = (256, 512),
     extents_box = \<lparr>box_b = 0, box_l = 0, box_t = 512, box_r = 1024\<rparr>, tiles_avail = (2, 2)\<rparr>"

text \<open>The world box that covers exactly the pixel footprint of one tile: rows
  \<open>[iy * th, (iy + 1) * th)\<close> and columns \<open>[ix * tw, (ix + 1) * tw)\<close>, converted to world
  coordinates with the inverse of the conversion in \<open>visible_tiles\<close>.\<close>

definition tile_world_box :: "MercatorTileCalc \<Rightarrow> int \<times> int \<Rightarrow> real box" where
  "tile_world_box self tile =
    (let E = extents_box self; Z = pixel_rez self;
         th = fst (tile_shape self); tw = snd (tile_shape self)
     in \<lparr>box_b = box_b E + real_of_int (fst tile * th) * dy Z,
         box_l = box_l E + real_of_int (snd tile * tw) * dx Z,
         box_t = box_b E + real_of_int ((fst tile + 1) * th) * dy Z,
         box_r = box_l E + real_of_int ((snd tile + 1) * tw) * dx Z\<rparr>)"

section \<open>Predicates on boxes used to state the properties\<close>

text \<open>Two world boxes share at least one point.\<close>

definition boxes_intersect :: "real box \<Rightarrow> real box \<Rightarrow> bool" where
  "boxes_intersect A B \<longleftrightarrow>
     max (box_b A) (box_b B) \<le> min (box_t A) (box_t B) \<and>
     max (box_l A) (box_l B) \<le> min (box_r A) (box_r B)"

text \<open>The first box lies entirely outside the second: strictly below, above, left or
  right of it.\<close>

definition box_outside :: "real box \<Rightarrow> real box \<Rightarrow> bool" where
  "box_outside A B \<longleftrightarrow>
     box_t A < box_b B \<or> box_t B < box_b A \<or> box_r A < box_l B \<or> box_r B < box_l A"

text \<open>The first box is contained in the second.\<close>

definition box_within :: "('a::ord) box \<Rightarrow> 'a box \<Rightarrow> bool" where
  "box_within A B \<longleftrightarrow>
     box_b B \<le> box_b A \<and> box_t A \<le> box_t B \<and> box_l B \<le> box_l A \<and> box_r A \<le> box_r B"

text \<open>A tile index box is half open: the box from (0, 0) to (1, 1) holds the one tile
  (0, 0).\<close>

definition tile_in_box :: "int box \<Rightarrow> int \<times> int \<Rightarrow> bool" where
  "tile_in_box B tile \<longleftrightarrow>
     box_b B \<le> fst tile \<and> fst tile < box_t B \<and> box_l B \<le> snd tile \<and> snd tile < box_r B"

text \<open>The tile index is within \<open>tiles_avail\<close>.\<close>

definition tile_exists :: "MercatorTileCalc \<Rightarrow> int \<times> int \<Rightarrow> bool" where
  "tile_exists self tile \<longleftrightarrow>
     0 \<le> fst tile \<and> fst tile < fst (tiles_avail self) \<and>
     0 \<le> snd tile \<and> snd tile < snd (tiles_avail self)"

text \<open>The pixel footprint of the tile (the rows and columns \<open>tile_pixels\<close> selects)
  overlaps the pixel view box in a region of positive area.\<close>

definition footprint_meets_view :: "MercatorTileCalc \<Rightarrow> real box \<Rightarrow> int \<times> int \<Rightarrow> bool" where
  "footprint_meets_view self V tile \<longleftrightarrow>
    (let pv = pixel_view self V;
         rows = fst (tile_pixels self (fst tile) (snd tile));
         cols = snd (tile_pixels self (fst tile) (snd tile))
     in real_of_int (fst rows) < box_t pv \<and> box_b pv < real_of_int (snd rows) \<and>
        real_of_int (fst cols) < box_r pv \<and> box_l pv < real_of_int (snd cols))"

text \<open>A tile index box with all four indices between \<open>0\<close> and \<open>tiles_avail\<close> and a
  non-negative extent on both axes.\<close>

definition tile_box_clamped :: "MercatorTileCalc \<Rightarrow> int box \<Rightarrow> bool" where
  "tile_box_clamped self B \<longleftrightarrow>
     0 \<le> box_b B \<and> box_b B \<le> box_t B \<and> box_t B \<le> fst (tiles_avail self) \<and>
     0 \<le> box_l B \<and> box_l B \<le> box_r B \<and> box_r B \<le> snd (tiles_avail self)"


section \<open>The tile store: \<open>FlatFileTileSet\<close>\<close>

text \<open>
  Modelled from the spec: the OpenGL texture sink (PyOpenGL, outside the repository).  The
  spec asks of it only that allocation gives a unique handle, that upload takes a pixel
  window, and that free invalidates the handle.  The context keeps the next texture name,
  the set of textures generated and not yet deleted, the bound texture and the number of
  uploads.
\<close>

record gl_context =
  next_texture :: nat
  live_textures :: "nat set"
  bound_texture :: "nat option"
  tex_uploads :: nat

text \<open>Modelled from the spec: \<open>glGenTextures(1)\<close> allocates one texture and returns its
  name, which no live texture has.\<close>

definition glGenTextures :: "gl_context \<Rightarrow> nat \<times> gl_context" where
  "glGenTextures g =
    (next_texture g,
     g\<lparr>next_texture := Suc (next_texture g),
       live_textures := insert (next_texture g) (live_textures g)\<rparr>)"

text \<open>Modelled from the spec: \<open>glBindTexture(GL_TEXTURE_BUFFER, texid)\<close> binds.\<close>

definition glBindTexture :: "nat \<Rightarrow> gl_context \<Rightarrow> gl_context" where
  "glBindTexture texid g = g\<lparr>bound_texture := Some texid\<rparr>"

text \<open>Modelled from the spec: \<open>glTexSubImage2D()\<close> is the upload to the bound texture.
  The source writes the call without arguments; the model counts it as one upload.\<close>

definition glTexSubImage2D :: "gl_context \<Rightarrow> gl_context" where
  "glTexSubImage2D g = g\<lparr>tex_uploads := Suc (tex_uploads g)\<rparr>"

text \<open>Modelled from the spec: \<open>glDeleteTextures([t])\<close> frees the textures named.\<close>

definition glDeleteTextures :: "nat list \<Rightarrow> gl_context \<Rightarrow> gl_context" where
  "glDeleteTextures ts g = g\<lparr>live_textures := live_textures g - set ts\<rparr>"

text \<open>The attributes of a \<open>FlatFileTileSet\<close>: \<open>data\<close> (only its shape matters here),
  \<open>path\<close>, \<open>_active\<close> (a dict from tile index to texture name) and \<open>_calc\<close>.\<close>

record FlatFileTileSet =
  data_shape :: "int \<times> int"
  path :: string
  active :: "int \<times> int \<rightharpoonup> nat"
  calc :: MercatorTileCalc

text \<open>The state the methods of the tile store act on: the object and the OpenGL
  context.\<close>

record world =
  tileset :: FlatFileTileSet
  gl :: gl_context

text \<open>\<open>FlatFileTileSet.__init__\<close>: the memory map has the shape given, the calculator is
  constructed from the same shape, and \<open>_active\<close> starts empty.  The exceptions of the
  calculator's constructor pass through.\<close>

definition FlatFileTileSet_init ::
  "string \<Rightarrow> int \<times> int \<Rightarrow> real \<times> real \<Rightarrow> rez \<Rightarrow> int \<times> int \<Rightarrow> error + FlatFileTileSet" where
  "FlatFileTileSet_init pth shape zpoint prez tshape =
    (case MercatorTileCalc_init pth shape zpoint prez tshape of
       Inl e \<Rightarrow> Inl e
     | Inr c \<Rightarrow> Inr \<lparr>data_shape = shape, path = pth, active = Map.empty, calc = c\<rparr>)"

text \<open>The slice \<open>self.data[ys:ye, xs:xe]\<close> that \<open>activate\<close> reads: the offsets are the
  tile offset in pixels multiplied by the zero point.\<close>

definition activate_slice :: "FlatFileTileSet \<Rightarrow> int \<times> int \<Rightarrow> (real \<times> real) \<times> (real \<times> real)" where
  "activate_slice self tile_yx =
    (let tile_y = fst tile_yx; tile_x = snd tile_yx;
         th = fst (tile_shape (calc self)); tw = snd (tile_shape (calc self));
         ys = real_of_int (tile_y * th) * fst (zero_point (calc self));
         xs = real_of_int (tile_x * tw) * snd (zero_point (calc self));
         ye = ys + real_of_int th;
         xe = xs + real_of_int tw
     in ((ys, ye), (xs, xe)))"

text \<open>
  \<open>activate\<close> in source order: the texture is generated first; the slice is taken (slicing
  does not raise); the two assertions compare the end of the slice with the shape of the
  data, and when one fails the generated texture stays allocated; then bind, upload, and
  the entry in \<open>_active\<close>.  The function has no \<open>return\<close> statement, so its value is Python's
  \<open>None\<close>: the result type is \<open>nat option\<close> with \<open>None\<close> for it.
\<close>

definition activate :: "world \<Rightarrow> int \<times> int \<Rightarrow> (error + nat option) \<times> world" where
  "activate s tile_yx =
    (let texid = fst (glGenTextures (gl s));
         g1 = snd (glGenTextures (gl s));
         tile_y = fst tile_yx; tile_x = snd tile_yx;
         ye = snd (fst (activate_slice (tileset s) tile_yx));
         xe = snd (snd (activate_slice (tileset s) tile_yx))
     in if xe \<le> real_of_int (snd (data_shape (tileset s))) then
          if ye \<le> real_of_int (fst (data_shape (tileset s))) then
            (let g2 = glBindTexture texid g1;
                 g3 = glTexSubImage2D g2;
                 self = (tileset s)\<lparr>active := (active (tileset s))((tile_y, tile_x) \<mapsto> texid)\<rparr>
             in (Inr None, \<lparr>tileset = self, gl = g3\<rparr>))
          else (Inl AssertionError, s\<lparr>gl := g1\<rparr>)
        else (Inl AssertionError, s\<lparr>gl := g1\<rparr>))"

text \<open>\<open>__getitem__\<close>: the entry of \<open>_active\<close> when there is one, and otherwise (the
  \<open>KeyError\<close> handler) whatever \<open>activate\<close> returns.\<close>

definition getitem :: "world \<Rightarrow> int \<times> int \<Rightarrow> (error + nat option) \<times> world" where
  "getitem s tileyx =
    (case active (tileset s) tileyx of
       Some texid \<Rightarrow> (Inr (Some texid), s)
     | None \<Rightarrow> activate s tileyx)"

text \<open>
  \<open>deactivate\<close>, with the state after each of its two effects: \<open>del self._active[k]\<close>
  first, \<open>glDeleteTextures([t])\<close> second.  The lookup \<open>self._active[k]\<close> raises \<open>KeyError\<close>
  for a tile that is not active, before any effect.
\<close>

definition deactivate_steps :: "world \<Rightarrow> int \<Rightarrow> int \<Rightarrow> (error + unit) \<times> world list" where
  "deactivate_steps s tile_y tile_x =
    (let k = (tile_y, tile_x)
     in case active (tileset s) k of
          None \<Rightarrow> (Inl KeyError, [])
        | Some t \<Rightarrow>
            (let s1 = s\<lparr>tileset := (tileset s)\<lparr>active := (active (tileset s))(k := None)\<rparr>\<rparr>;
                 s2 = s1\<lparr>gl := glDeleteTextures [t] (gl s1)\<rparr>
             in (Inr (), [s1, s2])))"

text \<open>\<open>deactivate\<close> as a function from state to state: the last state of the steps.\<close>

definition deactivate :: "world \<Rightarrow> int \<Rightarrow> int \<Rightarrow> (error + unit) \<times> world" where
  "deactivate s tile_y tile_x =
    (fst (deactivate_steps s tile_y tile_x), last (s # snd (deactivate_steps s tile_y tile_x)))"

text \<open>The mapping has no entry for the tile while the texture is still allocated.\<close>

definition entry_gone_texture_live :: "world \<Rightarrow> int \<times> int \<Rightarrow> nat \<Rightarrow> bool" where
  "entry_gone_texture_live s k t \<longleftrightarrow> active (tileset s) k = None \<and> t \<in> live_textures (gl s)"

text \<open>The mapping has no entry for the tile and the texture is freed.\<close>

definition entry_gone_texture_freed :: "world \<Rightarrow> int \<times> int \<Rightarrow> nat \<Rightarrow> bool" where
  "entry_gone_texture_freed s k t \<longleftrightarrow> active (tileset s) k = None \<and> t \<notin> live_textures (gl s)"

text \<open>The tile store over the example calculator, nothing active, in a fresh OpenGL
  context whose next texture name is 1.\<close>

definition example_world :: world where
  "example_world =
    \<lparr>tileset = \<lparr>data_shape = (512, 1024), path = ''example'', active = Map.empty, calc = example_calc\<rparr>,
     gl = \<lparr>next_texture = 1, live_textures = {}, bound_texture = None, tex_uploads = 0\<rparr>\<rparr>"

text \<open>The example store after the first lookup of tile (0, 0).\<close>

definition example_active_world :: world where
  "example_active_world = snd (getitem example_world (0, 0))"

section \<open>The render scheduler: \<open>SIFTMainMapWidget\<close> in \<open>MapWidget.py\<close>\<close>

text \<open>
  The part of the widget's state that \<open>on_draw\<close> and \<open>render_layers\<close> use:
  \<open>_deferred_render_layers\<close>, and the number of calls of
  \<open>QTimer.singleShot(250, self.render_layers)\<close>.  \<open>singleShot\<close> returns \<open>None\<close>, so
  \<open>_deferred_render_timer\<close> is \<open>None\<close> throughout and its \<open>stop()\<close> is never reached.  Layers
  are values of any type \<open>'l\<close>, compared with equality as \<open>in\<close> does.
\<close>

record 'l SIFTMainMapWidget =
  deferred_render_layers :: "'l list"
  single_shots :: nat

text \<open>\<open>__init__\<close> sets \<open>_deferred_render_layers = []\<close>.\<close>

definition SIFTMainMapWidget_init :: "'l SIFTMainMapWidget" where
  "SIFTMainMapWidget_init = \<lparr>deferred_render_layers = [], single_shots = 0\<rparr>"

text \<open>The loop \<open>for cand in render_candidates: if cand not in self._deferred_render_layers:
  self._deferred_render_layers.append(cand)\<close>.\<close>

fun queue_candidates :: "'l list \<Rightarrow> 'l list \<Rightarrow> 'l list" where
  "queue_candidates [] deferred = deferred"
| "queue_candidates (cand # cands) deferred =
     queue_candidates cands (if cand \<in> set deferred then deferred else deferred @ [cand])"

text \<open>
  \<open>on_draw\<close>.  The argument \<open>painted\<close> lists, in drawing order, each layer of the drawing
  plan with the truth value of its \<open>layer.paint(visible_geom, mvp)\<close>.  A layer is a render
  candidate when that value is true (\<open>if layer.paint(...): render_candidates.append(layer)\<close>).
\<close>

definition on_draw :: "('l \<times> bool) list \<Rightarrow> 'l SIFTMainMapWidget \<Rightarrow> 'l SIFTMainMapWidget" where
  "on_draw painted self =
    (let render_candidates = map fst (filter snd painted)
     in if render_candidates \<noteq> [] then
          self\<lparr>deferred_render_layers :=
                 queue_candidates render_candidates (deferred_render_layers self),
               single_shots := Suc (single_shots self)\<rparr>
        else self)"

text \<open>
  \<open>render_layers(layers=None)\<close>: \<open>layers or self._deferred_render_layers\<close>; nothing happens
  for an empty list; otherwise \<open>layer.render(vp)\<close> is called for each layer in order and the
  deferred list is reset.  The first component of the result is the list of layers whose
  \<open>render\<close> was called.  The single-shot timer calls it without argument.
\<close>

definition render_layers ::
  "'l list option \<Rightarrow> 'l SIFTMainMapWidget \<Rightarrow> 'l list \<times> 'l SIFTMainMapWidget" where
  "render_layers layers self =
    (let layers = (case layers of
                     None \<Rightarrow> deferred_render_layers self
                   | Some ls \<Rightarrow> if ls = [] then deferred_render_layers self else ls)
     in if layers = [] then ([], self)
        else (layers, self\<lparr>deferred_render_layers := []\<rparr>))"

text \<open>The layers whose \<open>paint\<close> returned true in at least one of the frames.\<close>

definition dirty_layers :: "('l \<times> bool) list list \<Rightarrow> 'l set" where
  "dirty_layers frames = {layer. \<exists>painted \<in> set frames. (layer, True) \<in> set painted}"

section \<open>Properties of the conversion to floats\<close>

text \<open>An integer of magnitude at most \<open>2 ^ 53\<close> is a double: \<open>float\<close> returns it
  unchanged.\<close>

lemma nearest_double_small: "\<bar>n\<bar> < 2 ^ 53 \<Longrightarrow> nearest_double n = n"
proof -
  assume "\<bar>n\<bar> < 2 ^ 53"
  then have "bitlen \<bar>n\<bar> \<le> 53" by (simp add: bitlen_le_iff_power)
  then show ?thesis by (simp add: nearest_double_def round_half_even_def Let_def)
qed

lemma bitlen_54:
  "bitlen 9007199254740992 = 54" "bitlen 9007199254740993 = 54"
proof -
  have "bitlen 9007199254740992 \<le> 54" "\<not> bitlen 9007199254740992 \<le> 53"
    "bitlen 9007199254740993 \<le> 54" "\<not> bitlen 9007199254740993 \<le> 53"
    by (simp_all add: bitlen_le_iff_power)
  then show "bitlen 9007199254740992 = 54" "bitlen 9007199254740993 = 54" by simp_all
qed

lemma nearest_double_exact: "\<bar>n\<bar> \<le> 2 ^ 53 \<Longrightarrow> nearest_double n = n"
proof -
  assume a: "\<bar>n\<bar> \<le> 2 ^ 53"
  consider "\<bar>n\<bar> < 2 ^ 53" | "n = 9007199254740992" | "n = - 9007199254740992"
    using a by force
  then show ?thesis
  proof cases
    case 1
    then show ?thesis by (rule nearest_double_small)
  next
    case 2
    then show ?thesis
      by (simp add: nearest_double_def round_half_even_def Let_def bitlen_54)
  next
    case 3
    then show ?thesis
      by (simp add: nearest_double_def round_half_even_def Let_def bitlen_54)
  qed
qed

text \<open>\<open>2 ^ 53 + 1\<close> lies halfway between two doubles and rounds to the even one.\<close>

lemma nearest_double_2p53_1: "nearest_double 9007199254740993 = 9007199254740992"
  by (simp add: nearest_double_def round_half_even_def Let_def bitlen_54)

lemma no_overflow_small: "\<bar>n\<bar> \<le> 2 ^ 53 \<Longrightarrow> \<not> float_overflows n"
  by (simp add: float_overflows_def DBL_OVERFLOW_def nearest_double_exact)

lemma py_float_exact: "\<bar>n\<bar> \<le> 2 ^ 53 \<Longrightarrow> py_float n = Inr (real_of_int n)"
  by (simp add: py_float_def no_overflow_small nearest_double_exact)




lemma exact_quotient_le:
  fixes h th :: int
  assumes "th \<noteq> 0" "h mod th = 0"
  shows "\<bar>h div th\<bar> \<le> \<bar>h\<bar>"
proof -
  have "h = (h div th) * th" using assms(2) by (simp add: mod_eq_0_iff_dvd)
  then have "\<bar>h\<bar> = \<bar>h div th\<bar> * \<bar>th\<bar>" by (metis abs_mult)
  moreover have "1 \<le> \<bar>th\<bar>" using assms(1) by simp
  ultimately show ?thesis by (metis abs_ge_zero mult.right_neutral mult_left_mono)
qed

section \<open>Properties of construction\<close>

lemma example_calc_init:
  "MercatorTileCalc_init ''example'' (512, 1024) (0, 0) \<lparr>dy = 1, dx = 1\<rparr> (256, 512) = Inr example_calc"
  by (simp add: MercatorTileCalc_init_def example_calc_def Let_def py_float_exact nearest_double_exact)

lemma init_Inr_fields:
  assumes "MercatorTileCalc_init nm pshape zpoint prez tshape = Inr c"
  shows "pixel_rez c = prez" and "tile_shape c = tshape" and "pixel_shape c = pshape"
    and "tiles_avail c =
           (nearest_double (fst pshape div fst tshape), nearest_double (snd pshape div snd tshape))"
    and "\<not> float_overflows (fst pshape)" and "\<not> float_overflows (snd pshape)"
    and "0 < dy prez" and "0 < dx prez" and "fst tshape \<noteq> 0" and "snd tshape \<noteq> 0"
    and "fst pshape mod fst tshape = 0" and "snd pshape mod snd tshape = 0"
  using assms
  by (auto simp add: MercatorTileCalc_init_def Let_def py_float_def split: if_splits)

text \<open>The straight-line code of \<open>visible_tiles\<close> in closed form: per axis the result is
  the interval \<open>[first, first + count)\<close>, widened by the margin, cut at \<open>0\<close> below and at
  \<open>tiles_avail\<close> above.\<close>

lemma visible_tiles_closed:
  assumes "dy (pixel_rez self) \<noteq> 0" "dx (pixel_rez self) \<noteq> 0"
     "fst (tile_shape self) \<noteq> 0" "snd (tile_shape self) \<noteq> 0"
  shows "visible_tiles self V X = Inr (WELLSAMPLED,
     \<lparr>box_b = max 0 (\<lfloor>box_b (pixel_view self V) / real_of_int (fst (tile_shape self))\<rfloor> - max 0 (box_b X)),
      box_l = max 0 (\<lfloor>box_l (pixel_view self V) / real_of_int (snd (tile_shape self))\<rfloor> - max 0 (box_l X)),
      box_t = min (fst (tiles_avail self))
         (\<lfloor>box_b (pixel_view self V) / real_of_int (fst (tile_shape self))\<rfloor>
          + \<lceil>(box_t (pixel_view self V) - box_b (pixel_view self V)) / real_of_int (fst (tile_shape self))\<rceil>
          + max 0 (box_t X)),
      box_r = min (snd (tiles_avail self))
         (\<lfloor>box_l (pixel_view self V) / real_of_int (snd (tile_shape self))\<rfloor>
          + \<lceil>(box_r (pixel_view self V) - box_l (pixel_view self V)) / real_of_int (snd (tile_shape self))\<rceil>
          + max 0 (box_r X))\<rparr>)"
proof -
  define fy where "fy = \<lfloor>box_b (pixel_view self V) / real_of_int (fst (tile_shape self))\<rfloor>"
  define fx where "fx = \<lfloor>box_l (pixel_view self V) / real_of_int (snd (tile_shape self))\<rfloor>"
  define cy where "cy = \<lceil>(box_t (pixel_view self V) - box_b (pixel_view self V)) / real_of_int (fst (tile_shape self))\<rceil>"
  define cx where "cx = \<lceil>(box_r (pixel_view self V) - box_l (pixel_view self V)) / real_of_int (snd (tile_shape self))\<rceil>"
  have "visible_tiles self V X = Inr (WELLSAMPLED,
     \<lparr>box_b = max 0 (fy - max 0 (box_b X)),
      box_l = max 0 (fx - max 0 (box_l X)),
      box_t = min (fst (tiles_avail self)) (fy + cy + max 0 (box_t X)),
      box_r = min (snd (tiles_avail self)) (fx + cx + max 0 (box_r X))\<rparr>)"
    unfolding visible_tiles_def Let_def split_def
      fy_def [symmetric] fx_def [symmetric] cy_def [symmetric] cx_def [symmetric]
    using assms
    apply (simp split del: if_split)
    apply (intro conjI)
       apply (simp_all add: max_def min_def)
    done
  then show ?thesis
    unfolding fy_def fx_def cy_def cx_def .
qed

lemma visible_tiles_returns:
  assumes "MercatorTileCalc_init nm pshape zpoint prez tshape = Inr c"
  shows "\<exists>B. visible_tiles c V X = Inr (WELLSAMPLED, B)"
proof -
  have "dy (pixel_rez c) \<noteq> 0" "dx (pixel_rez c) \<noteq> 0"
    "fst (tile_shape c) \<noteq> 0" "snd (tile_shape c) \<noteq> 0"
    using init_Inr_fields [OF assms] by auto
  from visible_tiles_closed [OF this] show ?thesis by blast
qed

section \<open>C10: the sampling state\<close>

text \<open>C10.  For every calculator that \<open>__init__\<close> constructs, every world box and every
  margin, \<open>visible_tiles\<close> returns, and the sampling state it returns is the constant
  \<open>WELLSAMPLED\<close>, which differs from \<open>OVERSAMPLED\<close> and \<open>UNDERSAMPLED\<close>.\<close>

theorem wellsampled_always:
  "MercatorTileCalc_init nm pshape zpoint prez tshape = Inr c \<Longrightarrow>
     \<exists>B. visible_tiles c V X = Inr (WELLSAMPLED, B)
       \<and> WELLSAMPLED \<noteq> OVERSAMPLED \<and> WELLSAMPLED \<noteq> UNDERSAMPLED"
  using visible_tiles_returns [of nm pshape zpoint prez tshape c V X]
  by (auto simp add: WELLSAMPLED_def OVERSAMPLED_def UNDERSAMPLED_def)

theorem wellsampled_always_witness:
  "MercatorTileCalc_init ''example'' (512, 1024) (0, 0) \<lparr>dy = 1, dx = 1\<rparr> (256, 512) = Inr example_calc
   \<and> (\<exists>B. visible_tiles example_calc \<lparr>box_b = 200, box_l = 0, box_t = 300, box_r = 100\<rparr> no_extra_tiles
          = Inr (WELLSAMPLED, B) \<and> WELLSAMPLED \<noteq> OVERSAMPLED \<and> WELLSAMPLED \<noteq> UNDERSAMPLED)"
  using wellsampled_always [OF example_calc_init] example_calc_init by blast

section \<open>C6: construction-time failure\<close>




section \<open>C7: the number of tiles\<close>

text \<open>C7, as stated, fails.  For \<open>pixel_shape = (2 ^ 53 + 1, 1)\<close> and \<open>tile_shape = (1, 1)\<close>
  the calculator is constructed and its \<open>tiles_avail\<close> is \<open>(2 ^ 53, 1)\<close>: the true division
  returns the double nearest to the quotient \<open>2 ^ 53 + 1\<close>.\<close>

theorem tiles_avail_rounded:
  "map_sum id tiles_avail
     (MercatorTileCalc_init ''example'' (9007199254740993, 1) (0, 0) \<lparr>dy = 1, dx = 1\<rparr> (1, 1))
     = Inr (9007199254740992, 1)"
  by (simp add: MercatorTileCalc_init_def Let_def py_float_def float_overflows_def
      DBL_OVERFLOW_def nearest_double_2p53_1 nearest_double_exact)

text \<open>C7, amended.  For every constructed calculator whose pixel dimensions are at most
  \<open>2 ^ 53\<close> in magnitude, \<open>tiles_avail\<close> times \<open>tile_shape\<close> is \<open>pixel_shape\<close> on both axes,
  and \<open>tiles_avail\<close> is the exact quotient.  For \<open>pixel_shape = (512, 1024)\<close> and
  \<open>tile_shape = (256, 512)\<close>, whatever the zero point and the resolution,
  \<open>tiles_avail = (2, 2)\<close>.  On the example calculator (zero point (0, 0), resolution
  (1, 1)) the world box of the bottom-left tile's footprint with the zero margin gives the
  tile box from (0, 0) to (1, 1).\<close>

theorem tiles_avail_exact_in_range:
  "(MercatorTileCalc_init nm pshape zpoint prez tshape = Inr c
      \<and> \<bar>fst pshape\<bar> \<le> 2 ^ 53 \<and> \<bar>snd pshape\<bar> \<le> 2 ^ 53 \<longrightarrow>
      fst (tiles_avail c) * fst tshape = fst pshape \<and> snd (tiles_avail c) * snd tshape = snd pshape
      \<and> real_of_int (fst (tiles_avail c)) = real_of_int (fst pshape) / real_of_int (fst tshape)
      \<and> real_of_int (snd (tiles_avail c)) = real_of_int (snd pshape) / real_of_int (snd tshape))
   \<and> (MercatorTileCalc_init nm (512, 1024) zpoint prez (256, 512) = Inr c \<longrightarrow>
      tiles_avail c = (2, 2))
   \<and> visible_tiles example_calc (tile_world_box example_calc (0, 0)) no_extra_tiles
          = Inr (WELLSAMPLED, \<lparr>box_b = 0, box_l = 0, box_t = 1, box_r = 1\<rparr>)"
proof (intro conjI impI)
  assume a: "MercatorTileCalc_init nm pshape zpoint prez tshape = Inr c
      \<and> \<bar>fst pshape\<bar> \<le> 2 ^ 53 \<and> \<bar>snd pshape\<bar> \<le> 2 ^ 53"
  then have i: "MercatorTileCalc_init nm pshape zpoint prez tshape = Inr c" by simp
  note f = init_Inr_fields [OF i]
  have "\<bar>fst pshape div fst tshape\<bar> \<le> 2 ^ 53"
    using exact_quotient_le [OF f(9) f(11)] a by linarith
  then have qy: "fst (tiles_avail c) = fst pshape div fst tshape"
    using f(4) by (simp add: nearest_double_exact)
  have "\<bar>snd pshape div snd tshape\<bar> \<le> 2 ^ 53"
    using exact_quotient_le [OF f(10) f(12)] a by linarith
  then have qx: "snd (tiles_avail c) = snd pshape div snd tshape"
    using f(4) by (simp add: nearest_double_exact)
  show y: "fst (tiles_avail c) * fst tshape = fst pshape"
    using qy f(11) by (simp add: mod_eq_0_iff_dvd)
  show x: "snd (tiles_avail c) * snd tshape = snd pshape"
    using qx f(12) by (simp add: mod_eq_0_iff_dvd)
  have "real_of_int (fst (tiles_avail c)) * real_of_int (fst tshape) = real_of_int (fst pshape)"
    using y by (metis of_int_mult)
  then show "real_of_int (fst (tiles_avail c)) = real_of_int (fst pshape) / real_of_int (fst tshape)"
    using f(9) by (simp add: field_simps)
  have "real_of_int (snd (tiles_avail c)) * real_of_int (snd tshape) = real_of_int (snd pshape)"
    using x by (metis of_int_mult)
  then show "real_of_int (snd (tiles_avail c)) = real_of_int (snd pshape) / real_of_int (snd tshape)"
    using f(10) by (simp add: field_simps)
next
  assume i: "MercatorTileCalc_init nm (512, 1024) zpoint prez (256, 512) = Inr c"
  note f = init_Inr_fields [OF i]
  show "tiles_avail c = (2, 2)" using f(4) by (simp add: nearest_double_exact)
next
  have nz: "dy (pixel_rez example_calc) \<noteq> 0" "dx (pixel_rez example_calc) \<noteq> 0"
    "fst (tile_shape example_calc) \<noteq> 0" "snd (tile_shape example_calc) \<noteq> 0"
    by (simp_all add: example_calc_def)
  have pv: "pixel_view example_calc (tile_world_box example_calc (0, 0))
      = \<lparr>box_b = 0, box_l = 0, box_t = 256, box_r = 512\<rparr>"
    by (simp add: pixel_view_def tile_world_box_def example_calc_def Let_def)
  show "visible_tiles example_calc (tile_world_box example_calc (0, 0)) no_extra_tiles
          = Inr (WELLSAMPLED, \<lparr>box_b = 0, box_l = 0, box_t = 1, box_r = 1\<rparr>)"
    unfolding visible_tiles_closed [OF nz] pv
    by (simp add: example_calc_def no_extra_tiles_def)
qed

theorem tiles_avail_exact_in_range_witness:
  "MercatorTileCalc_init ''example'' (512, 1024) (0, 0) \<lparr>dy = 1, dx = 1\<rparr> (256, 512) = Inr example_calc
   \<and> \<bar>512 :: int\<bar> \<le> 2 ^ 53 \<and> \<bar>1024 :: int\<bar> \<le> 2 ^ 53
   \<and> fst (tiles_avail example_calc) * 256 = 512 \<and> snd (tiles_avail example_calc) * 512 = 1024
   \<and> tiles_avail example_calc = (2, 2)
   \<and> visible_tiles example_calc \<lparr>box_b = 0, box_l = 0, box_t = 256, box_r = 512\<rparr> no_extra_tiles
          = Inr (WELLSAMPLED, \<lparr>box_b = 0, box_l = 0, box_t = 1, box_r = 1\<rparr>)"
proof -
  note t = tiles_avail_exact_in_range [where nm = "''example''" and pshape = "(512, 1024)"
      and zpoint = "(0, 0)" and prez = "\<lparr>dy = 1, dx = 1\<rparr>" and tshape = "(256, 512)"
      and c = example_calc]
  have w: "tile_world_box example_calc (0, 0) = \<lparr>box_b = 0, box_l = 0, box_t = 256, box_r = 512\<rparr>"
    by (simp add: tile_world_box_def example_calc_def Let_def)
  show ?thesis using t example_calc_init w by simp
qed

section \<open>Properties of \<open>visible_tiles\<close>\<close>

text \<open>\<open>visible_tiles\<close> on the example calculator with the default margin.\<close>

lemma example_visible_tiles:
  "visible_tiles example_calc \<lparr>box_b = vb, box_l = vl, box_t = vt, box_r = vr\<rparr> no_extra_tiles =
     Inr (WELLSAMPLED,
       \<lparr>box_b = max 0 \<lfloor>vb / 256\<rfloor>, box_l = max 0 \<lfloor>vl / 512\<rfloor>,
        box_t = min 2 (\<lfloor>vb / 256\<rfloor> + \<lceil>(vt - vb) / 256\<rceil>),
        box_r = min 2 (\<lfloor>vl / 512\<rfloor> + \<lceil>(vr - vl) / 512\<rceil>)\<rparr>)"
proof -
  have nz: "dy (pixel_rez example_calc) \<noteq> 0" "dx (pixel_rez example_calc) \<noteq> 0"
    "fst (tile_shape example_calc) \<noteq> 0" "snd (tile_shape example_calc) \<noteq> 0"
    by (simp_all add: example_calc_def)
  have pv: "pixel_view example_calc \<lparr>box_b = vb, box_l = vl, box_t = vt, box_r = vr\<rparr>
      = \<lparr>box_b = vb, box_l = vl, box_t = vt, box_r = vr\<rparr>"
    by (simp add: pixel_view_def example_calc_def)
  show ?thesis
    unfolding visible_tiles_closed [OF nz] pv
    by (simp add: example_calc_def no_extra_tiles_def)
qed

section \<open>C1: coverage of the requested pixel range\<close>

text \<open>C1.  The claim is that the returned tile box holds every tile whose footprint meets
  the requested pixel range.  On the example calculator the world box with rows 200 to 300
  meets the extents and meets the footprint of the existing tile (1, 0), rows 256 to 512;
  \<open>visible_tiles\<close> returns the box from (0, 0) to (1, 1), which does not hold tile
  (1, 0): the first tile is \<open>\<lfloor>200 / 256\<rfloor> = 0\<close> and the count is
  \<open>\<lceil>(300 - 200) / 256\<rceil> = 1\<close>.\<close>

theorem visible_tiles_undercovers:
  "visible_tiles example_calc \<lparr>box_b = 200, box_l = 0, box_t = 300, box_r = 100\<rparr> no_extra_tiles
     = Inr (WELLSAMPLED, \<lparr>box_b = 0, box_l = 0, box_t = 1, box_r = 1\<rparr>)
   \<and> boxes_intersect \<lparr>box_b = 200, box_l = 0, box_t = 300, box_r = 100\<rparr> (extents_box example_calc)
   \<and> tile_exists example_calc (1, 0)
   \<and> footprint_meets_view example_calc \<lparr>box_b = 200, box_l = 0, box_t = 300, box_r = 100\<rparr> (1, 0)
   \<and> \<not> tile_in_box \<lparr>box_b = 0, box_l = 0, box_t = 1, box_r = 1\<rparr> (1, 0)"
  unfolding example_visible_tiles
  by (simp add: boxes_intersect_def tile_exists_def footprint_meets_view_def
      tile_in_box_def tile_pixels_def pixel_view_def example_calc_def Let_def)

section \<open>C3: monotonicity\<close>

text \<open>C3.  The claim is that a larger world box never gives a smaller tile box.  On the
  example calculator the box with rows 256 to 384 is contained in the box with rows 200
  to 384; the first gives the tile box from (1, 0) to (2, 1), the second the tile box from
  (0, 0) to (1, 1), which does not contain the first.\<close>

theorem visible_tiles_not_monotonic:
  "box_within \<lparr>box_b = 256, box_l = 0, box_t = 384, box_r = 100\<rparr>
              \<lparr>box_b = 200, box_l = 0, box_t = 384, box_r = (100::real)\<rparr>
   \<and> visible_tiles example_calc \<lparr>box_b = 256, box_l = 0, box_t = 384, box_r = 100\<rparr> no_extra_tiles
     = Inr (WELLSAMPLED, \<lparr>box_b = 1, box_l = 0, box_t = 2, box_r = 1\<rparr>)
   \<and> visible_tiles example_calc \<lparr>box_b = 200, box_l = 0, box_t = 384, box_r = 100\<rparr> no_extra_tiles
     = Inr (WELLSAMPLED, \<lparr>box_b = 0, box_l = 0, box_t = 1, box_r = 1\<rparr>)
   \<and> \<not> box_within \<lparr>box_b = 1, box_l = 0, box_t = 2, box_r = 1\<rparr>
                    \<lparr>box_b = 0, box_l = 0, box_t = 1, box_r = (1::int)\<rparr>"
  unfolding example_visible_tiles
  by (simp add: box_within_def)

section \<open>C2: clamping to the available tiles\<close>

text \<open>C2.  The claim is that the returned tile box has all four indices between \<open>0\<close> and
  \<open>tiles_avail\<close> with top \<open>\<ge>\<close> bottom and right \<open>\<ge>\<close> left, and is a zero-area box for a
  world box outside the extents.  On the example calculator a world box above the extents
  (rows 1000 to 1100) gives bottom 3 and top 2: a bottom index beyond \<open>tiles_avail = 2\<close> and
  a negative extent.  A world box below the extents (rows -1000 to -900) gives top -3: a
  negative index.  The truncation to the available tiles cuts the first tile at \<open>0\<close> but
  not at \<open>tiles_avail\<close>, and lets the tile count go negative.\<close>

theorem visible_tiles_negative_extent:
  "box_outside \<lparr>box_b = 1000, box_l = 0, box_t = 1100, box_r = 100\<rparr> (extents_box example_calc)
   \<and> visible_tiles example_calc \<lparr>box_b = 1000, box_l = 0, box_t = 1100, box_r = 100\<rparr> no_extra_tiles
     = Inr (WELLSAMPLED, \<lparr>box_b = 3, box_l = 0, box_t = 2, box_r = 1\<rparr>)
   \<and> \<not> tile_box_clamped example_calc \<lparr>box_b = 3, box_l = 0, box_t = 2, box_r = 1\<rparr>
   \<and> box_outside \<lparr>box_b = - 1000, box_l = 0, box_t = - 900, box_r = 100\<rparr> (extents_box example_calc)
   \<and> visible_tiles example_calc \<lparr>box_b = - 1000, box_l = 0, box_t = - 900, box_r = 100\<rparr> no_extra_tiles
     = Inr (WELLSAMPLED, \<lparr>box_b = 0, box_l = 0, box_t = - 3, box_r = 1\<rparr>)
   \<and> \<not> tile_box_clamped example_calc \<lparr>box_b = 0, box_l = 0, box_t = - 3, box_r = 1\<rparr>"
  unfolding example_visible_tiles
  by (simp add: box_outside_def tile_box_clamped_def example_calc_def)

section \<open>Properties of the tile store\<close>

lemma example_tileset_init:
  "FlatFileTileSet_init ''example'' (512, 1024) (0, 0) \<lparr>dy = 1, dx = 1\<rparr> (256, 512)
     = Inr (tileset example_world)"
  by (simp add: FlatFileTileSet_init_def example_calc_init example_world_def)

lemma getitem_hit:
  "active (tileset s) k = Some t \<Longrightarrow> getitem s k = (Inr (Some t), s)"
  by (simp add: getitem_def)

lemma example_first_get:
  "fst (getitem example_world (0, 0)) = Inr None"
  "active (tileset (snd (getitem example_world (0, 0)))) (0, 0) = Some 1"
  "tex_uploads (gl (snd (getitem example_world (0, 0)))) = 1"
  "live_textures (gl (snd (getitem example_world (0, 0)))) = {1}"
  by (simp_all add: getitem_def activate_def activate_slice_def example_world_def example_calc_def
      glGenTextures_def glBindTexture_def glTexSubImage2D_def Let_def)

section \<open>C4: two lookups of the same tile\<close>

text \<open>C4.  The claim is that two lookups return the identical texture handle.  On the
  example store the first lookup of tile (0, 0) activates the tile and returns \<open>None\<close>
  (\<open>activate\<close> has no \<open>return\<close>); the second returns the texture name 1, leaves the state
  as it is, and the number of uploads stays 1.\<close>

theorem getitem_first_returns_none:
  "fst (getitem example_world (0, 0)) = Inr None
   \<and> fst (getitem (snd (getitem example_world (0, 0))) (0, 0)) = Inr (Some 1)
   \<and> snd (getitem (snd (getitem example_world (0, 0))) (0, 0)) = snd (getitem example_world (0, 0))
   \<and> tex_uploads (gl (snd (getitem (snd (getitem example_world (0, 0))) (0, 0)))) = 1
   \<and> live_textures (gl (snd (getitem (snd (getitem example_world (0, 0))) (0, 0)))) = {1}"
  by (simp add: example_first_get getitem_hit [OF example_first_get(2)])

section \<open>C8: the pixel window of a tile\<close>

text \<open>C8.  The claim is that both \<open>tile_pixels\<close> and \<open>activate\<close> read rows
  \<open>[iy * th, (iy + 1) * th)\<close> and columns \<open>[ix * tw, (ix + 1) * tw)\<close>.  For tile (1, 1) of
  the example store (zero point (0, 0)), \<open>tile_pixels\<close> selects rows 256 to 512 and columns
  512 to 1024, and \<open>activate\<close> reads rows 0 to 256 and columns 0 to 512.  With the zero
  point (1, 1) the two agree: the window of \<open>activate\<close> depends on the zero point.\<close>

theorem activate_slice_uses_zero_point:
  "tile_pixels (calc (tileset example_world)) 1 1 = ((256, 512), (512, 1024))
   \<and> activate_slice (tileset example_world) (1, 1) = ((0, 256), (0, 512))
   \<and> activate_slice ((tileset example_world)\<lparr>calc := example_calc\<lparr>zero_point := (1, 1)\<rparr>\<rparr>) (1, 1)
        = ((256, 512), (512, 1024))
   \<and> tile_pixels (example_calc\<lparr>zero_point := (1, 1)\<rparr>) 1 1 = ((256, 512), (512, 1024))"
  by (simp add: tile_pixels_def activate_slice_def example_world_def example_calc_def Let_def)

section \<open>C9: the order of the effects of \<open>deactivate\<close>\<close>

text \<open>C9, as stated, fails.  For the active tile (0, 0) of the example store with texture
  1, the state after the first effect of \<open>deactivate\<close> has no entry for the tile while
  texture 1 is still allocated.\<close>

theorem deactivate_entry_removed_before_release:
  "fst (deactivate_steps example_active_world 0 0) = Inr ()
   \<and> length (snd (deactivate_steps example_active_world 0 0)) = 2
   \<and> active (tileset example_active_world) (0, 0) = Some 1
   \<and> entry_gone_texture_live (hd (snd (deactivate_steps example_active_world 0 0))) (0, 0) 1"
  by (simp add: deactivate_steps_def example_active_world_def example_first_get
      entry_gone_texture_live_def Let_def)

text \<open>C9, amended.  In \<open>deactivate\<close> for an active tile whose texture is allocated, the
  entry is removed from the mapping first, with the OpenGL context unchanged, and the
  texture is freed second.  After \<open>deactivate\<close> the entry is gone, the texture is freed,
  and nothing else in the mapping or among the allocated textures has changed.\<close>

theorem deactivate_removes_then_releases:
  assumes "active (tileset s) (tile_y, tile_x) = Some t" and "t \<in> live_textures (gl s)"
  shows "\<exists>s1 s2. deactivate_steps s tile_y tile_x = (Inr (), [s1, s2])
     \<and> deactivate s tile_y tile_x = (Inr (), s2)
     \<and> entry_gone_texture_live s1 (tile_y, tile_x) t
     \<and> entry_gone_texture_freed s2 (tile_y, tile_x) t
     \<and> gl s1 = gl s
     \<and> active (tileset s2) = (active (tileset s))((tile_y, tile_x) := None)
     \<and> live_textures (gl s2) = live_textures (gl s) - {t}"
  using assms
  by (simp add: deactivate_steps_def deactivate_def entry_gone_texture_live_def
      entry_gone_texture_freed_def glDeleteTextures_def Let_def)

theorem deactivate_removes_then_releases_witness:
  "active (tileset example_active_world) (0, 0) = Some 1
   \<and> 1 \<in> live_textures (gl example_active_world)
   \<and> (\<exists>s1 s2. deactivate_steps example_active_world 0 0 = (Inr (), [s1, s2])
     \<and> deactivate example_active_world 0 0 = (Inr (), s2)
     \<and> entry_gone_texture_live s1 (0, 0) 1
     \<and> entry_gone_texture_freed s2 (0, 0) 1)"
proof -
  have a: "active (tileset example_active_world) (0, 0) = Some 1"
    by (simp add: example_active_world_def example_first_get)
  have b: "1 \<in> live_textures (gl example_active_world)"
    by (simp add: example_active_world_def example_first_get)
  from deactivate_removes_then_releases [OF a b] a b show ?thesis by blast
qed

section \<open>Properties of the render scheduler\<close>

lemma queue_candidates_set:
  "set (queue_candidates cands deferred) = set deferred \<union> set cands"
  by (induction cands arbitrary: deferred) auto

lemma queue_candidates_distinct:
  "distinct deferred \<Longrightarrow> distinct (queue_candidates cands deferred)"
  by (induction cands arbitrary: deferred) auto

lemma on_draw_set:
  "set (deferred_render_layers (on_draw painted self)) =
     set (deferred_render_layers self) \<union> {layer. (layer, True) \<in> set painted}"
proof -
  have "set (map fst (filter snd painted)) = {layer. (layer, True) \<in> set painted}"
    by force
  moreover have "map fst (filter snd painted) = [] \<Longrightarrow> {layer. (layer, True) \<in> set painted} = {}"
    using calculation by (metis set_empty2)
  ultimately show ?thesis
    by (auto simp add: on_draw_def Let_def queue_candidates_set simp del: set_map)
qed

lemma on_draw_distinct:
  "distinct (deferred_render_layers self) \<Longrightarrow> distinct (deferred_render_layers (on_draw painted self))"
  by (simp add: on_draw_def Let_def queue_candidates_distinct)

lemma frames_set:
  "set (deferred_render_layers (fold on_draw frames self)) =
     set (deferred_render_layers self) \<union> dirty_layers frames"
proof (induction frames arbitrary: self)
  case Nil
  then show ?case by (simp add: dirty_layers_def)
next
  case (Cons painted frames)
  have "dirty_layers (painted # frames) = {layer. (layer, True) \<in> set painted} \<union> dirty_layers frames"
    by (auto simp add: dirty_layers_def)
  then show ?case by (simp add: Cons.IH on_draw_set Un_assoc)
qed

lemma frames_distinct:
  "distinct (deferred_render_layers self) \<Longrightarrow>
     distinct (deferred_render_layers (fold on_draw frames self))"
  by (induction frames arbitrary: self) (simp_all add: on_draw_distinct)

lemma distinct_count_list:
  "distinct xs \<Longrightarrow> count_list xs x = (if x \<in> set xs then 1 else 0)"
  by (induction xs) auto

lemma render_layers_None:
  "fst (render_layers None self) = deferred_render_layers self"
  "deferred_render_layers (snd (render_layers None self)) = []"
  by (simp_all add: render_layers_def Let_def)

section \<open>C5: deferred rendering\<close>

text \<open>C5, as stated, fails.  In a frame where the \<open>paint\<close> of layer A returns false and that
  of layer B returns true, \<open>on_draw\<close> queues B and not A; a frame in which only A is
  painted, returning false, queues nothing.\<close>

theorem on_draw_queues_true_not_false:
  "deferred_render_layers (on_draw [(''A'', False), (''B'', True)] SIFTMainMapWidget_init) = [''B'']
   \<and> deferred_render_layers (on_draw [(''A'', False)] SIFTMainMapWidget_init) = []"
  by (simp add: on_draw_def SIFTMainMapWidget_init_def Let_def)

text \<open>C5, amended.  On each frame \<open>on_draw\<close> adds to the deferred list exactly the layers
  whose \<open>paint\<close> returned true, and a list without duplicates stays without duplicates.
  After any sequence of frames from the initial state, \<open>render_layers()\<close> calls \<open>render\<close>
  exactly once for every layer that was dirty in some frame and for no other layer, and
  empties the list, so that a second firing renders nothing.  The frames in which A, B
  and A again are dirty give one \<open>render\<close> for A and one for B.\<close>

theorem deferred_render_once:
  "set (deferred_render_layers (on_draw painted self)) =
       set (deferred_render_layers self) \<union> {layer. (layer, True) \<in> set painted}
   \<and> (distinct (deferred_render_layers self) \<longrightarrow>
        distinct (deferred_render_layers (on_draw painted self)))
   \<and> (let w = fold on_draw frames SIFTMainMapWidget_init;
           calls = fst (render_layers None w)
       in set calls = dirty_layers frames
          \<and> (\<forall>layer. count_list calls layer = (if layer \<in> dirty_layers frames then 1 else 0))
          \<and> deferred_render_layers (snd (render_layers None w)) = []
          \<and> fst (render_layers None (snd (render_layers None w))) = [])
   \<and> (A \<noteq> B \<longrightarrow>
        fst (render_layers None
              (fold on_draw [[(A, True)], [(B, True)], [(A, True)]] SIFTMainMapWidget_init)) = [A, B])"
proof (intro conjI)
  show "set (deferred_render_layers (on_draw painted self)) =
       set (deferred_render_layers self) \<union> {layer. (layer, True) \<in> set painted}"
    by (rule on_draw_set)
next
  show "distinct (deferred_render_layers self) \<longrightarrow>
        distinct (deferred_render_layers (on_draw painted self))"
    by (simp add: on_draw_distinct)
next
  define w where "w = fold on_draw frames SIFTMainMapWidget_init"
  have s: "set (deferred_render_layers w) = dirty_layers frames"
    unfolding w_def frames_set by (simp add: SIFTMainMapWidget_init_def)
  have d: "distinct (deferred_render_layers w)"
    unfolding w_def by (rule frames_distinct) (simp add: SIFTMainMapWidget_init_def)
  have c: "count_list (deferred_render_layers w) layer = (if layer \<in> dirty_layers frames then 1 else 0)"
    for layer
    using s distinct_count_list [OF d, of layer] by simp
  show "let w = fold on_draw frames SIFTMainMapWidget_init;
           calls = fst (render_layers None w)
       in set calls = dirty_layers frames
          \<and> (\<forall>layer. count_list calls layer = (if layer \<in> dirty_layers frames then 1 else 0))
          \<and> deferred_render_layers (snd (render_layers None w)) = []
          \<and> fst (render_layers None (snd (render_layers None w))) = []"
    unfolding Let_def w_def [symmetric]
    using s c by (simp add: render_layers_None)
next
  show "A \<noteq> B \<longrightarrow>
        fst (render_layers None
              (fold on_draw [[(A, True)], [(B, True)], [(A, True)]] SIFTMainMapWidget_init)) = [A, B]"
    by (simp add: render_layers_None on_draw_def SIFTMainMapWidget_init_def Let_def)
qed

theorem deferred_render_once_witness:
  "set (deferred_render_layers (on_draw [(''A'', False), (''B'', True)] SIFTMainMapWidget_init)) = {''B''}
   \<and> fst (render_layers None
        (fold on_draw [[(''A'', True)], [(''B'', True)], [(''A'', True)]] SIFTMainMapWidget_init))
       = [''A'', ''B'']
   \<and> count_list (fst (render_layers None
        (fold on_draw [[(''A'', True)], [(''B'', True)], [(''A'', True)]] SIFTMainMapWidget_init))) ''A'' = 1"
proof -
  note t = deferred_render_once [where painted = "[(''A'', False), (''B'', True)]"
      and self = SIFTMainMapWidget_init and A = "''A''" and B = "''B''"
      and frames = "[[(''A'', True)], [(''B'', True)], [(''A'', True)]]"]
  have ab: "''A'' \<noteq> ''B''" by simp
  have a: "set (deferred_render_layers (on_draw [(''A'', False), (''B'', True)] SIFTMainMapWidget_init)) = {''B''}"
    using t by (simp add: SIFTMainMapWidget_init_def)
  have b: "fst (render_layers None
        (fold on_draw [[(''A'', True)], [(''B'', True)], [(''A'', True)]] SIFTMainMapWidget_init))
       = [''A'', ''B'']"
    using t ab by blast
  show ?thesis using a b by simp
qed

end
